theory Spec2Isabelle
  imports Main
begin

section \<open>Data model (internal/models/user.go, admin-backend revision)\<close>

text \<open>
  \<^verbatim>\<open>type UserRole string\<close> and \<^verbatim>\<open>type UserStatus string\<close>: both are plain Go strings, so
  a request may carry any text in them. The handlers bind requests with
  \<^verbatim>\<open>c.ShouldBindJSON\<close>, which does not read the \<^verbatim>\<open>validate:"..."\<close> struct tags.
\<close>

type_synonym UserRole = string
type_synonym UserStatus = string

abbreviation RoleAdmin :: UserRole where "RoleAdmin \<equiv> ''admin''"
abbreviation RoleManager :: UserRole where "RoleManager \<equiv> ''manager''"
abbreviation RoleStaff :: UserRole where "RoleStaff \<equiv> ''staff''"

abbreviation StatusActive :: UserStatus where "StatusActive \<equiv> ''active''"
abbreviation StatusInactive :: UserStatus where "StatusInactive \<equiv> ''inactive''"

text \<open>
  \<^verbatim>\<open>primitive.ObjectID\<close> is a 12-byte value, read here as a number; \<^verbatim>\<open>time.Time\<close> is a
  point on a discrete clock. A nil \<^verbatim>\<open>*time.Time\<close> and a nil map are \<open>None\<close>.
\<close>

type_synonym ObjectID = nat
type_synonym time = nat

record LoginRequest =
  Email :: string
  Password :: string

record RegisterRequest =
  Name :: string
  Email :: string
  Username :: string
  Password :: string
  Phone :: string
  Department :: string
  Bio :: string
  Role :: UserRole

record UpdateUserRequest =
  Name :: string
  Email :: string
  Username :: string
  Phone :: string
  Department :: string
  Bio :: string
  ProfileImage :: string
  SocialLinks :: "(string \<rightharpoonup> string) option"
  Role :: UserRole
  Status :: UserStatus

record UserResponse =
  ID :: string
  Name :: string
  Email :: string
  Username :: string
  Role :: UserRole
  Status :: UserStatus
  Phone :: string
  Department :: string
  Bio :: string
  ProfileImage :: string
  SocialLinks :: "(string \<rightharpoonup> string) option"
  LastLogin :: "time option"
  CreatedAt :: time
  UpdatedAt :: time

record User =
  ID :: ObjectID
  Name :: string
  Email :: string
  Username :: string
  Password :: string
  Role :: UserRole
  Status :: UserStatus
  Phone :: string
  Department :: string
  Bio :: string
  ProfileImage :: string
  SocialLinks :: "(string \<rightharpoonup> string) option"
  LastLogin :: "time option"
  CreatedAt :: time
  UpdatedAt :: time

section \<open>Collaborators outside the repository\<close>

text \<open>
  The password hasher and token issuer (\<^verbatim>\<open>pkg/utils\<close>), the object-id codec of the
  document-store driver, the clock and the id generator are taken as parameters of every
  handler. \<open>HashPassword\<close> and \<open>GenerateToken\<close> return \<open>None\<close> where the Go function
  returns a non-nil error; \<open>ObjectIDFromHex\<close> likewise. \<open>Now\<close> is the value of
  \<^verbatim>\<open>time.Now()\<close> and \<open>NewObjectID\<close> the value of \<^verbatim>\<open>primitive.NewObjectID()\<close> for the
  request being served.
\<close>

record env =
  ObjectIDFromHex :: "string \<Rightarrow> ObjectID option"
  Hex :: "ObjectID \<Rightarrow> string"
  HashPassword :: "string \<Rightarrow> string option"
  CheckPassword :: "string \<Rightarrow> string \<Rightarrow> bool"
  GenerateToken :: "User \<Rightarrow> string option"
  Now :: time
  NewObjectID :: ObjectID

section \<open>The users collection\<close>

text \<open>
  The collection is the list of its documents in insertion order. \<open>FindOne\<close> returns the
  first document that satisfies the filter (\<open>None\<close> is the driver's no-documents error).
  \<open>InsertOne\<close> appends and fails on a duplicate \<^verbatim>\<open>_id\<close>, the one unique index every
  collection has. \<open>UpdateOne\<close> applies a \<^verbatim>\<open>$set\<close> to the first document with the given
  \<^verbatim>\<open>_id\<close> and \<open>DeleteOne\<close> removes it; neither reports an error when nothing matches.
  The handlers are run one at a time on the collection; lost connections and undecodable
  documents are not part of this store, so the 500 replies that follow \<open>UpdateOne\<close> and
  \<open>DeleteOne\<close> are branches it never takes.
\<close>

type_synonym collection = "User list"

definition FindOne :: "(User \<Rightarrow> bool) \<Rightarrow> collection \<Rightarrow> User option" where
  "FindOne flt db = find flt db"

definition InsertOne :: "User \<Rightarrow> collection \<Rightarrow> collection option" where
  "InsertOne doc db =
     (if list_ex (\<lambda>d. User.ID d = User.ID doc) db then None else Some (db @ [doc]))"

fun update_first :: "ObjectID \<Rightarrow> (User \<Rightarrow> User) \<Rightarrow> collection \<Rightarrow> collection" where
  "update_first oid set_fields [] = []"
| "update_first oid set_fields (d # ds) =
     (if User.ID d = oid then set_fields d # ds else d # update_first oid set_fields ds)"

definition UpdateOne :: "ObjectID \<Rightarrow> (User \<Rightarrow> User) \<Rightarrow> collection \<Rightarrow> collection option" where
  "UpdateOne oid set_fields db = Some (update_first oid set_fields db)"

fun delete_first :: "ObjectID \<Rightarrow> collection \<Rightarrow> collection" where
  "delete_first oid [] = []"
| "delete_first oid (d # ds) = (if User.ID d = oid then ds else d # delete_first oid ds)"

definition DeleteOne :: "ObjectID \<Rightarrow> collection \<Rightarrow> collection option" where
  "DeleteOne oid db = Some (delete_first oid db)"

section \<open>HTTP responses\<close>

datatype body =
  ErrorResponse string
| UserJSON UserResponse
| LoginResponse string UserResponse
| Nil

type_synonym response = "nat \<times> body"

abbreviation StatusOK :: nat where "StatusOK \<equiv> 200"
abbreviation StatusCreated :: nat where "StatusCreated \<equiv> 201"
abbreviation StatusNoContent :: nat where "StatusNoContent \<equiv> 204"
abbreviation StatusBadRequest :: nat where "StatusBadRequest \<equiv> 400"
abbreviation StatusUnauthorized :: nat where "StatusUnauthorized \<equiv> 401"
abbreviation StatusForbidden :: nat where "StatusForbidden \<equiv> 403"
abbreviation StatusNotFound :: nat where "StatusNotFound \<equiv> 404"
abbreviation StatusConflict :: nat where "StatusConflict \<equiv> 409"
abbreviation StatusInternalServerError :: nat where "StatusInternalServerError \<equiv> 500"

text \<open>
  What a handler reads from \<^verbatim>\<open>*gin.Context\<close>: the \<^verbatim>\<open>:id\<close> path parameter, the outcome
  of \<^verbatim>\<open>ShouldBindJSON\<close> (\<open>Inl\<close> the decoder's error text) and the \<^verbatim>\<open>"userID"\<close> key that
  the authentication middleware may have set (\<open>None\<close> when the key is absent; when present
  it holds a string).
\<close>

record 'b Context =
  Param_id :: string
  ShouldBindJSON :: "string + 'b"
  Get_userID :: "string option"

definition ToResponse :: "env \<Rightarrow> User \<Rightarrow> UserResponse" where
  "ToResponse e u =
     \<lparr> UserResponse.ID = Hex e (User.ID u),
       UserResponse.Name = User.Name u,
       UserResponse.Email = User.Email u,
       UserResponse.Username = User.Username u,
       UserResponse.Role = User.Role u,
       UserResponse.Status = User.Status u,
       UserResponse.Phone = User.Phone u,
       UserResponse.Department = User.Department u,
       UserResponse.Bio = User.Bio u,
       UserResponse.ProfileImage = User.ProfileImage u,
       UserResponse.SocialLinks = User.SocialLinks u,
       UserResponse.LastLogin = User.LastLogin u,
       UserResponse.CreatedAt = User.CreatedAt u,
       UserResponse.UpdatedAt = User.UpdatedAt u \<rparr>"

section \<open>Public handlers: Register and Login\<close>

abbreviation msg_invalid_format :: string where
  "msg_invalid_format \<equiv>
     ''Invalid request format. Please check your input data and try again.''"

abbreviation msg_account_exists :: string where
  "msg_account_exists \<equiv>
     ''An account with this email or username already exists. Please use a different email or try logging in if you already have an account.''"

abbreviation msg_bad_credentials :: string where
  "msg_bad_credentials \<equiv>
     ''The email or password you entered is incorrect. Please check your credentials and try again.''"

abbreviation msg_inactive :: string where
  "msg_inactive \<equiv>
     ''Your account is currently inactive. Please contact support for assistance.''"

definition Register :: "env \<Rightarrow> RegisterRequest Context \<Rightarrow> collection \<Rightarrow> response \<times> collection" where
  "Register e c db =
     (case ShouldBindJSON c of
        Inl err \<Rightarrow> ((StatusBadRequest, ErrorResponse msg_invalid_format), db)
      | Inr req \<Rightarrow>
          (case FindOne (\<lambda>u. User.Email u = RegisterRequest.Email req
                            \<or> User.Username u = RegisterRequest.Username req) db of
             Some existingUser \<Rightarrow> ((StatusConflict, ErrorResponse msg_account_exists), db)
           | None \<Rightarrow>
               (case HashPassword e (RegisterRequest.Password req) of
                  None \<Rightarrow>
                    ((StatusInternalServerError, ErrorResponse
                       ''An error occurred while processing your request. Please try again later.''), db)
                | Some hashedPassword \<Rightarrow>
                    (let now = Now e;
                         user = \<lparr> User.ID = NewObjectID e,
                                  User.Name = RegisterRequest.Name req,
                                  User.Email = RegisterRequest.Email req,
                                  User.Username = RegisterRequest.Username req,
                                  User.Password = hashedPassword,
                                  User.Role = RegisterRequest.Role req,
                                  User.Status = StatusActive,
                                  User.Phone = RegisterRequest.Phone req,
                                  User.Department = [],
                                  User.Bio = [],
                                  User.ProfileImage = [],
                                  User.SocialLinks = None,
                                  User.LastLogin = None,
                                  User.CreatedAt = now,
                                  User.UpdatedAt = now \<rparr>
                     in case InsertOne user db of
                          None \<Rightarrow>
                            ((StatusInternalServerError, ErrorResponse
                               ''An error occurred while creating your account. Please try again later.''), db)
                        | Some db' \<Rightarrow> ((StatusCreated, UserJSON (ToResponse e user)), db')))))"

definition Login :: "env \<Rightarrow> LoginRequest Context \<Rightarrow> collection \<Rightarrow> response \<times> collection" where
  "Login e c db =
     (case ShouldBindJSON c of
        Inl err \<Rightarrow> ((StatusBadRequest, ErrorResponse msg_invalid_format), db)
      | Inr req \<Rightarrow>
          (case FindOne (\<lambda>u. User.Email u = LoginRequest.Email req) db of
             None \<Rightarrow> ((StatusUnauthorized, ErrorResponse msg_bad_credentials), db)
           | Some user \<Rightarrow>
               if \<not> CheckPassword e (LoginRequest.Password req) (User.Password user)
               then ((StatusUnauthorized, ErrorResponse msg_bad_credentials), db)
               else if User.Status user \<noteq> StatusActive
               then ((StatusUnauthorized, ErrorResponse msg_inactive), db)
               else
                 (let now = Now e;
                      user = user\<lparr> User.LastLogin := Some now, User.UpdatedAt := now \<rparr>;
                      db' = (case UpdateOne (User.ID user)
                                    (\<lambda>d. d\<lparr> User.LastLogin := User.LastLogin user,
                                             User.UpdatedAt := User.UpdatedAt user \<rparr>) db of
                               None \<Rightarrow> db
                             | Some updated \<Rightarrow> updated)
                  in case GenerateToken e user of
                       None \<Rightarrow>
                         ((StatusInternalServerError, ErrorResponse
                            ''An error occurred while logging you in. Please try again later.''), db')
                     | Some token \<Rightarrow>
                         ((StatusOK, LoginResponse token (ToResponse e user)), db'))))"

section \<open>User management handlers (internal/handlers/users.go)\<close>

text \<open>
  The block under \<^verbatim>\<open>// Permission checks\<close> of each handler either writes a 403 reply
  and returns, or falls through to the rest of the handler. It is a function of the two
  documents and the request that yields the text of the 403 reply, or \<open>None\<close> when
  control falls through.
\<close>

definition CreateUser_permission_checks :: "User \<Rightarrow> RegisterRequest \<Rightarrow> string option" where
  "CreateUser_permission_checks currentUser req =
     (if User.Role currentUser = RoleAdmin then
        (if RegisterRequest.Role req = RoleAdmin
         then Some ''Admin cannot create other admins''
         else None)
      else if User.Role currentUser = RoleManager then
        (if RegisterRequest.Role req \<noteq> RoleStaff
         then Some ''Manager can only create staff accounts''
         else None)
      else Some ''Staff cannot create user accounts'')"

definition CreateUser :: "env \<Rightarrow> RegisterRequest Context \<Rightarrow> collection \<Rightarrow> response \<times> collection" where
  "CreateUser e c db =
     (case ShouldBindJSON c of
        Inl err \<Rightarrow> ((StatusBadRequest, ErrorResponse err), db)
      | Inr req \<Rightarrow>
     (case Get_userID c of
        None \<Rightarrow> ((StatusUnauthorized, ErrorResponse ''Unauthorized''), db)
      | Some currentUserID \<Rightarrow>
     (case ObjectIDFromHex e currentUserID of
        None \<Rightarrow> ((StatusBadRequest, ErrorResponse ''Invalid current user ID''), db)
      | Some currentUserObjectID \<Rightarrow>
     (case FindOne (\<lambda>u. User.ID u = currentUserObjectID) db of
        None \<Rightarrow> ((StatusInternalServerError, ErrorResponse ''Failed to get current user''), db)
      | Some currentUser \<Rightarrow>
     (case CreateUser_permission_checks currentUser req of
        Some forbidden \<Rightarrow> ((StatusForbidden, ErrorResponse forbidden), db)
      | None \<Rightarrow>
     (case FindOne (\<lambda>u. User.Email u = RegisterRequest.Email req
                       \<or> User.Username u = RegisterRequest.Username req) db of
        Some existingUser \<Rightarrow>
          ((StatusConflict, ErrorResponse ''User with this email or username already exists''), db)
      | None \<Rightarrow>
     (case HashPassword e (RegisterRequest.Password req) of
        None \<Rightarrow> ((StatusInternalServerError, ErrorResponse ''Failed to hash password''), db)
      | Some hashedPassword \<Rightarrow>
          (let now = Now e;
               user = \<lparr> User.ID = NewObjectID e,
                        User.Name = RegisterRequest.Name req,
                        User.Email = RegisterRequest.Email req,
                        User.Username = RegisterRequest.Username req,
                        User.Password = hashedPassword,
                        User.Role = RegisterRequest.Role req,
                        User.Status = StatusActive,
                        User.Phone = RegisterRequest.Phone req,
                        User.Department = RegisterRequest.Department req,
                        User.Bio = RegisterRequest.Bio req,
                        User.ProfileImage = [],
                        User.SocialLinks = None,
                        User.LastLogin = None,
                        User.CreatedAt = now,
                        User.UpdatedAt = now \<rparr>
           in case InsertOne user db of
                None \<Rightarrow> ((StatusInternalServerError, ErrorResponse ''Failed to create user''), db)
              | Some db' \<Rightarrow> ((StatusCreated, UserJSON (ToResponse e user)), db')))))))))"

definition UpdateUser_permission_checks ::
    "User \<Rightarrow> User \<Rightarrow> UpdateUserRequest \<Rightarrow> string option" where
  "UpdateUser_permission_checks currentUser user req =
     (if User.Role currentUser = RoleAdmin then
        (if UpdateUserRequest.Role req \<noteq> [] \<and> User.Role user = RoleAdmin
            \<and> UpdateUserRequest.Role req \<noteq> RoleAdmin
         then Some ''Admin cannot change other admins' roles''
         else None)
      else if User.Role currentUser = RoleManager then
        (if User.Role user \<noteq> RoleStaff
         then Some ''Manager can only update staff accounts''
         else if UpdateUserRequest.Role req \<noteq> []
         then Some ''Manager cannot change user roles''
         else None)
      else Some ''Staff cannot update user accounts'')"

text \<open>
  The assignments of \<^verbatim>\<open>// Update other fields\<close>: a field of the request that is the
  zero value of its type leaves the loaded document's field as it is.
\<close>

definition update_other_fields :: "UpdateUserRequest \<Rightarrow> User \<Rightarrow> User" where
  "update_other_fields req user0 =
     (let user = user0;
          user = (if UpdateUserRequest.Name req \<noteq> []
                  then user\<lparr> User.Name := UpdateUserRequest.Name req \<rparr> else user);
          user = (if UpdateUserRequest.Phone req \<noteq> []
                  then user\<lparr> User.Phone := UpdateUserRequest.Phone req \<rparr> else user);
          user = (if UpdateUserRequest.Department req \<noteq> []
                  then user\<lparr> User.Department := UpdateUserRequest.Department req \<rparr> else user);
          user = (if UpdateUserRequest.Bio req \<noteq> []
                  then user\<lparr> User.Bio := UpdateUserRequest.Bio req \<rparr> else user);
          user = (if UpdateUserRequest.ProfileImage req \<noteq> []
                  then user\<lparr> User.ProfileImage := UpdateUserRequest.ProfileImage req \<rparr> else user);
          user = (if UpdateUserRequest.SocialLinks req \<noteq> None
                  then user\<lparr> User.SocialLinks := UpdateUserRequest.SocialLinks req \<rparr> else user);
          user = (if UpdateUserRequest.Role req \<noteq> []
                  then user\<lparr> User.Role := UpdateUserRequest.Role req \<rparr> else user);
          user = (if UpdateUserRequest.Status req \<noteq> []
                  then user\<lparr> User.Status := UpdateUserRequest.Status req \<rparr> else user)
      in user)"

text \<open>The \<^verbatim>\<open>$set\<close> document of \<open>UpdateUser\<close>: eleven fields, taken from the local struct.\<close>

definition update_set :: "User \<Rightarrow> User \<Rightarrow> User" where
  "update_set user d =
     d\<lparr> User.Name := User.Name user,
        User.Email := User.Email user,
        User.Username := User.Username user,
        User.Phone := User.Phone user,
        User.Department := User.Department user,
        User.Bio := User.Bio user,
        User.ProfileImage := User.ProfileImage user,
        User.SocialLinks := User.SocialLinks user,
        User.Role := User.Role user,
        User.Status := User.Status user,
        User.UpdatedAt := User.UpdatedAt user \<rparr>"

definition UpdateUser :: "env \<Rightarrow> UpdateUserRequest Context \<Rightarrow> collection \<Rightarrow> response \<times> collection" where
  "UpdateUser e c db =
     (case ObjectIDFromHex e (Param_id c) of
        None \<Rightarrow> ((StatusBadRequest, ErrorResponse ''Invalid user ID''), db)
      | Some userObjectID \<Rightarrow>
     (case ShouldBindJSON c of
        Inl err \<Rightarrow> ((StatusBadRequest, ErrorResponse err), db)
      | Inr req \<Rightarrow>
     (case Get_userID c of
        None \<Rightarrow> ((StatusUnauthorized, ErrorResponse ''Unauthorized''), db)
      | Some currentUserID \<Rightarrow>
     (case ObjectIDFromHex e currentUserID of
        None \<Rightarrow> ((StatusBadRequest, ErrorResponse ''Invalid current user ID''), db)
      | Some currentUserObjectID \<Rightarrow>
     (case FindOne (\<lambda>u. User.ID u = currentUserObjectID) db of
        None \<Rightarrow> ((StatusInternalServerError, ErrorResponse ''Failed to get current user''), db)
      | Some currentUser \<Rightarrow>
     (case FindOne (\<lambda>u. User.ID u = userObjectID) db of
        None \<Rightarrow> ((StatusNotFound, ErrorResponse ''User not found''), db)
      | Some user \<Rightarrow>
     (case UpdateUser_permission_checks currentUser user req of
        Some forbidden \<Rightarrow> ((StatusForbidden, ErrorResponse forbidden), db)
      | None \<Rightarrow>
          if UpdateUserRequest.Email req \<noteq> [] \<and> UpdateUserRequest.Email req \<noteq> User.Email user
             \<and> FindOne (\<lambda>u. User.Email u = UpdateUserRequest.Email req
                              \<and> User.ID u \<noteq> userObjectID) db \<noteq> None
          then ((StatusConflict, ErrorResponse ''Email already in use''), db)
          else
            (let user = (if UpdateUserRequest.Email req \<noteq> []
                            \<and> UpdateUserRequest.Email req \<noteq> User.Email user
                         then user\<lparr> User.Email := UpdateUserRequest.Email req \<rparr> else user)
             in
               if UpdateUserRequest.Username req \<noteq> []
                  \<and> UpdateUserRequest.Username req \<noteq> User.Username user
                  \<and> FindOne (\<lambda>u. User.Username u = UpdateUserRequest.Username req
                                   \<and> User.ID u \<noteq> userObjectID) db \<noteq> None
               then ((StatusConflict, ErrorResponse ''Username already in use''), db)
               else
                 (let user = (if UpdateUserRequest.Username req \<noteq> []
                                 \<and> UpdateUserRequest.Username req \<noteq> User.Username user
                              then user\<lparr> User.Username := UpdateUserRequest.Username req \<rparr>
                              else user);
                      user = update_other_fields req user;
                      user = user\<lparr> User.UpdatedAt := Now e \<rparr>
                  in case UpdateOne userObjectID (update_set user) db of
                       None \<Rightarrow>
                         ((StatusInternalServerError, ErrorResponse ''Failed to update user''), db)
                     | Some db' \<Rightarrow> ((StatusOK, UserJSON (ToResponse e user)), db'))))))))))"

text \<open>
  \<open>DeleteUser\<close> has no block of its own for the permission checks: two guarded replies
  stand between loading the current user and \<^verbatim>\<open>DeleteOne\<close>.
\<close>

definition DeleteUser_permission_checks :: "User \<Rightarrow> User \<Rightarrow> string option" where
  "DeleteUser_permission_checks currentUser user =
     (if User.Role currentUser = RoleAdmin
         \<and> (User.Role user = RoleAdmin \<or> User.Role user = RoleManager)
      then Some ''Admin cannot delete other admins or managers''
      else if User.Role currentUser = RoleManager \<and> User.Role user = RoleAdmin
      then Some ''Manager cannot delete admin''
      else None)"

definition DeleteUser :: "env \<Rightarrow> unit Context \<Rightarrow> collection \<Rightarrow> response \<times> collection" where
  "DeleteUser e c db =
     (case ObjectIDFromHex e (Param_id c) of
        None \<Rightarrow> ((StatusBadRequest, ErrorResponse ''Invalid user ID''), db)
      | Some userObjectID \<Rightarrow>
     (case FindOne (\<lambda>u. User.ID u = userObjectID) db of
        None \<Rightarrow> ((StatusNotFound, ErrorResponse ''User not found''), db)
      | Some user \<Rightarrow>
     (case Get_userID c of
        None \<Rightarrow> ((StatusUnauthorized, ErrorResponse ''Unauthorized''), db)
      | Some currentUserID \<Rightarrow>
     (case ObjectIDFromHex e currentUserID of
        None \<Rightarrow> ((StatusBadRequest, ErrorResponse ''Invalid current user ID''), db)
      | Some currentUserObjectID \<Rightarrow>
     (case FindOne (\<lambda>u. User.ID u = currentUserObjectID) db of
        None \<Rightarrow> ((StatusInternalServerError, ErrorResponse ''Failed to get current user''), db)
      | Some currentUser \<Rightarrow>
     (case DeleteUser_permission_checks currentUser user of
        Some forbidden \<Rightarrow> ((StatusForbidden, ErrorResponse forbidden), db)
      | None \<Rightarrow>
     (case DeleteOne userObjectID db of
        None \<Rightarrow> ((StatusInternalServerError, ErrorResponse ''Failed to delete user''), db)
      | Some db' \<Rightarrow> ((StatusNoContent, Nil), db'))))))))"

section \<open>Route table (internal/routes/routes.go)\<close>

datatype middleware = CORSMiddleware | AuthMiddleware | RoleMiddleware "UserRole list"

datatype handler =
  handlers_Register | handlers_Login | handlers_GetProfile
| handlers_GetUsers | handlers_GetUser | handlers_CreateUser
| handlers_UpdateUser | handlers_DeleteUser

text \<open>
  The authentication and user-management entries of \<open>SetupRoutes\<close>: method, full path,
  the middleware chain in front of the handler (the engine-wide CORS middleware, then the
  middleware of each enclosing group) and the handler.
\<close>

definition SetupRoutes :: "((string \<times> string) \<times> middleware list \<times> handler) list" where
  "SetupRoutes =
     [((''POST'', ''/api/v1/auth/register''), [CORSMiddleware], handlers_Register),
      ((''POST'', ''/api/v1/auth/login''), [CORSMiddleware], handlers_Login),
      ((''GET'', ''/api/v1/auth/profile''), [CORSMiddleware, AuthMiddleware], handlers_GetProfile),
      ((''GET'', ''/api/v1/users''),
         [CORSMiddleware, AuthMiddleware, RoleMiddleware [RoleAdmin]], handlers_GetUsers),
      ((''GET'', ''/api/v1/users/:id''),
         [CORSMiddleware, AuthMiddleware, RoleMiddleware [RoleAdmin]], handlers_GetUser),
      ((''POST'', ''/api/v1/users''),
         [CORSMiddleware, AuthMiddleware, RoleMiddleware [RoleAdmin]], handlers_CreateUser),
      ((''PUT'', ''/api/v1/users/:id''),
         [CORSMiddleware, AuthMiddleware, RoleMiddleware [RoleAdmin]], handlers_UpdateUser),
      ((''DELETE'', ''/api/v1/users/:id''),
         [CORSMiddleware, AuthMiddleware, RoleMiddleware [RoleAdmin]], handlers_DeleteUser)]"

section \<open>The role policy as the specification words it\<close>

text \<open>
  The specification speaks of three roles in a total order admin > manager > staff and
  gives the policy as tables. These definitions follow the specification's tables; the
  theorems below compare the handlers with them.
\<close>

datatype role = Admin | Manager | Staff

fun role_string :: "role \<Rightarrow> UserRole" where
  "role_string Admin = RoleAdmin"
| "role_string Manager = RoleManager"
| "role_string Staff = RoleStaff"

text \<open>Position in the hierarchy; a role string outside the three has none and ranks lowest.\<close>

definition spec_rank :: "UserRole \<Rightarrow> nat" where
  "spec_rank r =
     (if r = RoleAdmin then 3 else if r = RoleManager then 2 else if r = RoleStaff then 1 else 0)"


text \<open>
  The third argument is the role field of the patch, empty when the patch has none.
  An admin may update every target and change its role, except re-assigning an admin away
  from admin; a manager may update staff only and may not send a role field; staff may
  update nobody.
\<close>

fun spec_can_update :: "role \<Rightarrow> role \<Rightarrow> UserRole \<Rightarrow> bool" where
  "spec_can_update Admin target patch_role =
     (\<not> (target = Admin \<and> patch_role \<noteq> [] \<and> patch_role \<noteq> RoleAdmin))"
| "spec_can_update Manager target patch_role = (target = Staff \<and> patch_role = [])"
| "spec_can_update Staff target patch_role = False"

section \<open>Sample data\<close>

definition sample_env :: env where
  "sample_env =
     \<lparr> ObjectIDFromHex =
         (\<lambda>s. if s = ''64b7f0a1c2d3e4f5a6b7c801'' then Some 1
              else if s = ''64b7f0a1c2d3e4f5a6b7c802'' then Some 2
              else if s = ''64b7f0a1c2d3e4f5a6b7c803'' then Some 3
              else if s = ''64b7f0a1c2d3e4f5a6b7c804'' then Some 4
              else if s = ''64b7f0a1c2d3e4f5a6b7c805'' then Some 5
              else None),
       Hex =
         (\<lambda>i. if i = 1 then ''64b7f0a1c2d3e4f5a6b7c801''
              else if i = 2 then ''64b7f0a1c2d3e4f5a6b7c802''
              else if i = 3 then ''64b7f0a1c2d3e4f5a6b7c803''
              else if i = 4 then ''64b7f0a1c2d3e4f5a6b7c804''
              else if i = 5 then ''64b7f0a1c2d3e4f5a6b7c805''
              else ''64b7f0a1c2d3e4f5a6b7c8ff''),
       HashPassword = (\<lambda>p. Some (''$2a$'' @ p)),
       CheckPassword = (\<lambda>p h. h = ''$2a$'' @ p),
       GenerateToken = (\<lambda>u. Some (''jwt.'' @ User.Email u)),
       Now = 1000,
       NewObjectID = 9 \<rparr>"

definition sample_user :: "ObjectID \<Rightarrow> string \<Rightarrow> UserRole \<Rightarrow> UserStatus \<Rightarrow> User" where
  "sample_user oid uname r st =
     \<lparr> User.ID = oid,
       User.Name = uname,
       User.Email = uname @ ''@x.com'',
       User.Username = uname,
       User.Password = ''$2a$secret1'',
       User.Role = r,
       User.Status = st,
       User.Phone = [],
       User.Department = [],
       User.Bio = [],
       User.ProfileImage = [],
       User.SocialLinks = None,
       User.LastLogin = None,
       User.CreatedAt = 10,
       User.UpdatedAt = 10 \<rparr>"

definition sample_db :: collection where
  "sample_db =
     [sample_user 1 ''root'' RoleAdmin StatusActive,
      sample_user 2 ''mary'' RoleManager StatusActive,
      sample_user 3 ''sam'' RoleStaff StatusInactive]"

text \<open>A second collection: an admin, two managers and two staff members, all active.\<close>

definition sample_team :: collection where
  "sample_team =
     [sample_user 1 ''root'' RoleAdmin StatusActive,
      sample_user 2 ''mary'' RoleManager StatusActive,
      sample_user 3 ''sam'' RoleStaff StatusActive,
      sample_user 4 ''tom'' RoleStaff StatusActive,
      sample_user 5 ''mike'' RoleManager StatusActive]"

definition sample_register :: "string \<Rightarrow> UserRole \<Rightarrow> RegisterRequest" where
  "sample_register uname r =
     \<lparr> RegisterRequest.Name = uname,
       RegisterRequest.Email = uname @ ''@x.com'',
       RegisterRequest.Username = uname,
       RegisterRequest.Password = ''secret1'',
       RegisterRequest.Phone = [],
       RegisterRequest.Department = [],
       RegisterRequest.Bio = [],
       RegisterRequest.Role = r \<rparr>"

definition sample_patch :: "string \<Rightarrow> UserRole \<Rightarrow> UpdateUserRequest" where
  "sample_patch nm r =
     \<lparr> UpdateUserRequest.Name = nm,
       UpdateUserRequest.Email = [],
       UpdateUserRequest.Username = [],
       UpdateUserRequest.Phone = [],
       UpdateUserRequest.Department = [],
       UpdateUserRequest.Bio = [],
       UpdateUserRequest.ProfileImage = [],
       UpdateUserRequest.SocialLinks = None,
       UpdateUserRequest.Role = r,
       UpdateUserRequest.Status = [] \<rparr>"

definition sample_login :: "string \<Rightarrow> string \<Rightarrow> LoginRequest" where
  "sample_login em pw = \<lparr> LoginRequest.Email = em, LoginRequest.Password = pw \<rparr>"

text \<open>A request context: path parameter, decoded body, and the id left by the middleware.\<close>

definition sample_ctx :: "string \<Rightarrow> 'b \<Rightarrow> string option \<Rightarrow> 'b Context" where
  "sample_ctx pid b uid = \<lparr> Param_id = pid, ShouldBindJSON = Inr b, Get_userID = uid \<rparr>"

section \<open>Facts about the collection\<close>

lemma FindOne_None_iff: "FindOne P db = None \<longleftrightarrow> (\<forall>u\<in>set db. \<not> P u)"
  by (auto simp: FindOne_def find_None_iff)

lemma FindOne_Some_holds: "FindOne P db = Some u \<Longrightarrow> P u \<and> u \<in> set db"
  by (auto simp: FindOne_def find_Some_iff)

lemma InsertOne_fresh:
  "(\<forall>u\<in>set db. User.ID u \<noteq> User.ID doc) \<Longrightarrow> InsertOne doc db = Some (db @ [doc])"
  by (auto simp: InsertOne_def list_ex_iff)

lemma find_holds: "find P xs = Some x \<Longrightarrow> P x"
  by (induction xs) (auto split: if_splits)

lemma delete_first_remove1:
  "find (\<lambda>u. User.ID u = oid) db = Some user \<Longrightarrow> delete_first oid db = remove1 user db"
proof (induction db)
  case Nil
  then show ?case by simp
next
  case (Cons d ds)
  from Cons.prems have "User.ID user = oid"
    by (rule find_holds)
  with Cons show ?case
    by (auto split: if_splits)
qed

lemma update_first_nth:
  "find (\<lambda>u. User.ID u = oid) db = Some old \<Longrightarrow>
     \<exists>i<length db. db ! i = old \<and> update_first oid f db = db[i := f old]"
proof (induction db)
  case Nil
  then show ?case by simp
next
  case (Cons d ds)
  show ?case
  proof (cases "User.ID d = oid")
    case True
    with Cons.prems have "d = old" by simp
    with True have "(d # ds) ! 0 = old \<and> update_first oid f (d # ds) = (d # ds)[0 := f old]"
      by simp
    then show ?thesis by blast
  next
    case False
    with Cons.prems have "find (\<lambda>u. User.ID u = oid) ds = Some old" by simp
    from Cons.IH [OF this] obtain i where
      i: "i < length ds" "ds ! i = old" "update_first oid f ds = ds[i := f old]"
      by blast
    with False have "Suc i < length (d # ds) \<and> (d # ds) ! Suc i = old
        \<and> update_first oid f (d # ds) = (d # ds)[Suc i := f old]"
      by simp
    then show ?thesis by blast
  qed
qed

section \<open>Registration\<close>

text \<open>
  Claim C1. The register route is public: its middleware chain holds the CORS middleware
  only, no authentication and no role middleware. For every registration request whose email and
  username no stored account holds, \<open>Register\<close> replies 201 and appends one account whose
  role is the role of the request, whatever it is (so also \<open>admin\<close>), and whose status is
  active. The handler reaches the insert when the hasher returns a digest and the generated
  id is new to the collection; both are the normal behaviour of the two collaborators.
\<close>

theorem Register_stores_requested_role:
  assumes "ShouldBindJSON c = Inr req"
    and "\<forall>u\<in>set db. User.Email u \<noteq> RegisterRequest.Email req
                   \<and> User.Username u \<noteq> RegisterRequest.Username req"
    and "HashPassword e (RegisterRequest.Password req) = Some h"
    and "\<forall>u\<in>set db. User.ID u \<noteq> NewObjectID e"
  shows "map_of SetupRoutes (''POST'', ''/api/v1/auth/register'')
           = Some ([CORSMiddleware], handlers_Register)
       \<and> (\<exists>user. Register e c db = ((StatusCreated, UserJSON (ToResponse e user)), db @ [user])
              \<and> User.Role user = RegisterRequest.Role req
              \<and> User.Status user = StatusActive
              \<and> User.Email user = RegisterRequest.Email req
              \<and> User.Username user = RegisterRequest.Username req
              \<and> User.Password user = h)"
proof -
  have route: "map_of SetupRoutes (''POST'', ''/api/v1/auth/register'')
           = Some ([CORSMiddleware], handlers_Register)"
    by (simp add: SetupRoutes_def)
  from assms(2) have nf: "FindOne (\<lambda>u. User.Email u = RegisterRequest.Email req
                            \<or> User.Username u = RegisterRequest.Username req) db = None"
    by (auto simp: FindOne_None_iff)
  show ?thesis
    using route assms(1,3) nf assms(4)
    by (simp add: Register_def Let_def InsertOne_fresh)
qed

text \<open>An anonymous request for role admin, on a collection of three accounts.\<close>

theorem Register_stores_requested_role_witness:
  "map_of SetupRoutes (''POST'', ''/api/v1/auth/register'')
           = Some ([CORSMiddleware], handlers_Register)
   \<and> (\<exists>user. Register sample_env (sample_ctx [] (sample_register ''eve'' RoleAdmin) None) sample_db
            = ((StatusCreated, UserJSON (ToResponse sample_env user)), sample_db @ [user])
         \<and> User.Role user = RegisterRequest.Role (sample_register ''eve'' RoleAdmin)
         \<and> User.Status user = StatusActive
         \<and> User.Email user = RegisterRequest.Email (sample_register ''eve'' RoleAdmin)
         \<and> User.Username user = RegisterRequest.Username (sample_register ''eve'' RoleAdmin)
         \<and> User.Password user = ''$2a$secret1'')"
  by (rule Register_stores_requested_role [where req = "sample_register ''eve'' RoleAdmin"])
     (simp_all add: sample_ctx_def sample_register_def sample_db_def sample_user_def sample_env_def)

text \<open>
  Claim C9. When a stored account already holds the email or the username of the request,
  \<open>Register\<close> replies 409 with the conflict message and returns the collection it was
  given: nothing is inserted and no stored document changes.
\<close>

theorem Register_conflict_leaves_collection:
  assumes "ShouldBindJSON c = Inr req"
    and "\<exists>u\<in>set db. User.Email u = RegisterRequest.Email req
                   \<or> User.Username u = RegisterRequest.Username req"
  shows "Register e c db = ((StatusConflict, ErrorResponse msg_account_exists), db)"
proof -
  from assms(2) have "FindOne (\<lambda>u. User.Email u = RegisterRequest.Email req
                            \<or> User.Username u = RegisterRequest.Username req) db \<noteq> None"
    by (simp add: FindOne_None_iff)
  then obtain x where "FindOne (\<lambda>u. User.Email u = RegisterRequest.Email req
                            \<or> User.Username u = RegisterRequest.Username req) db = Some x"
    by blast
  with assms(1) show ?thesis
    by (simp add: Register_def)
qed

theorem Register_conflict_leaves_collection_witness:
  "Register sample_env (sample_ctx [] (sample_register ''mary'' RoleStaff) None) sample_db
     = ((StatusConflict, ErrorResponse msg_account_exists), sample_db)"
  by (rule Register_conflict_leaves_collection [where req = "sample_register ''mary'' RoleStaff"])
     (simp_all add: sample_ctx_def sample_register_def sample_db_def sample_user_def)

section \<open>Login\<close>

text \<open>
  Claim C7. \<open>Login\<close> checks, in this order, that an account has the email, that the
  password verifies against its stored hash, and that its status is active. The first two
  failures give the same reply, status 401 with the same message; an account that passes
  the first two checks and is not active gets status 401 with another message. The three
  cases are read in the order of the handler: a request that fails the password check and
  names an inactive account falls under the second case, since the two replies differ and
  one request gets one reply (claim C8 is about that order).
\<close>

theorem Login_same_error_for_both_mismatches:
  assumes "ShouldBindJSON c = Inr req"
  shows "((\<forall>u\<in>set db. User.Email u \<noteq> LoginRequest.Email req) \<longrightarrow>
            Login e c db = ((StatusUnauthorized, ErrorResponse msg_bad_credentials), db))
       \<and> (\<forall>user. FindOne (\<lambda>u. User.Email u = LoginRequest.Email req) db = Some user
                 \<and> \<not> CheckPassword e (LoginRequest.Password req) (User.Password user) \<longrightarrow>
            Login e c db = ((StatusUnauthorized, ErrorResponse msg_bad_credentials), db))
       \<and> (\<forall>user. FindOne (\<lambda>u. User.Email u = LoginRequest.Email req) db = Some user
                 \<and> CheckPassword e (LoginRequest.Password req) (User.Password user)
                 \<and> User.Status user \<noteq> StatusActive \<longrightarrow>
            Login e c db = ((StatusUnauthorized, ErrorResponse msg_inactive), db))
       \<and> ErrorResponse msg_inactive \<noteq> ErrorResponse msg_bad_credentials"
proof -
  have a: "Login e c db = ((StatusUnauthorized, ErrorResponse msg_bad_credentials), db)"
    if "\<forall>u\<in>set db. User.Email u \<noteq> LoginRequest.Email req"
  proof -
    from that have "FindOne (\<lambda>u. User.Email u = LoginRequest.Email req) db = None"
      by (simp add: FindOne_None_iff)
    with assms show ?thesis by (simp add: Login_def)
  qed
  have b: "Login e c db = ((StatusUnauthorized, ErrorResponse msg_bad_credentials), db)"
    if "FindOne (\<lambda>u. User.Email u = LoginRequest.Email req) db = Some user"
      and "\<not> CheckPassword e (LoginRequest.Password req) (User.Password user)" for user
    using assms that by (simp add: Login_def)
  have c: "Login e c db = ((StatusUnauthorized, ErrorResponse msg_inactive), db)"
    if "FindOne (\<lambda>u. User.Email u = LoginRequest.Email req) db = Some user"
      and "CheckPassword e (LoginRequest.Password req) (User.Password user)"
      and "User.Status user \<noteq> StatusActive" for user
    using assms that by (simp add: Login_def)
  have d: "ErrorResponse msg_inactive \<noteq> ErrorResponse msg_bad_credentials"
    by simp
  from a b c d show ?thesis by blast
qed

theorem Login_same_error_for_both_mismatches_witness:
  "Login sample_env (sample_ctx [] (sample_login ''nobody@x.com'' ''secret1'') None) sample_db
     = ((StatusUnauthorized, ErrorResponse msg_bad_credentials), sample_db)
   \<and> Login sample_env (sample_ctx [] (sample_login ''mary@x.com'' ''wrong'') None) sample_db
     = ((StatusUnauthorized, ErrorResponse msg_bad_credentials), sample_db)
   \<and> Login sample_env (sample_ctx [] (sample_login ''sam@x.com'' ''secret1'') None) sample_db
     = ((StatusUnauthorized, ErrorResponse msg_inactive), sample_db)"
proof -
  have bind: "ShouldBindJSON (sample_ctx [] (sample_login em pw) None) = Inr (sample_login em pw)"
    for em pw by (simp add: sample_ctx_def)
  have 1: "\<forall>u\<in>set sample_db. User.Email u \<noteq> LoginRequest.Email (sample_login ''nobody@x.com'' ''secret1'')"
    by (simp add: sample_db_def sample_user_def sample_login_def)
  have 2: "FindOne (\<lambda>u. User.Email u = LoginRequest.Email (sample_login ''mary@x.com'' ''wrong'')) sample_db
             = Some (sample_user 2 ''mary'' RoleManager StatusActive)
           \<and> \<not> CheckPassword sample_env (LoginRequest.Password (sample_login ''mary@x.com'' ''wrong''))
                 (User.Password (sample_user 2 ''mary'' RoleManager StatusActive))"
    by (simp add: sample_db_def sample_user_def sample_login_def FindOne_def sample_env_def)
  have 3: "FindOne (\<lambda>u. User.Email u = LoginRequest.Email (sample_login ''sam@x.com'' ''secret1'')) sample_db
             = Some (sample_user 3 ''sam'' RoleStaff StatusInactive)
           \<and> CheckPassword sample_env (LoginRequest.Password (sample_login ''sam@x.com'' ''secret1''))
                 (User.Password (sample_user 3 ''sam'' RoleStaff StatusInactive))
           \<and> User.Status (sample_user 3 ''sam'' RoleStaff StatusInactive) \<noteq> StatusActive"
    by (simp add: sample_db_def sample_user_def sample_login_def FindOne_def sample_env_def)
  note inst = Login_same_error_for_both_mismatches [OF bind, where db = sample_db and e = sample_env]
  from inst [of "''nobody@x.com''" "''secret1''"] 1
  have r1: "Login sample_env (sample_ctx [] (sample_login ''nobody@x.com'' ''secret1'') None) sample_db
     = ((StatusUnauthorized, ErrorResponse msg_bad_credentials), sample_db)" by blast
  from inst [of "''mary@x.com''" "''wrong''"] 2
  have r2: "Login sample_env (sample_ctx [] (sample_login ''mary@x.com'' ''wrong'') None) sample_db
     = ((StatusUnauthorized, ErrorResponse msg_bad_credentials), sample_db)" by blast
  from inst [of "''sam@x.com''" "''secret1''"] 3
  have r3: "Login sample_env (sample_ctx [] (sample_login ''sam@x.com'' ''secret1'') None) sample_db
     = ((StatusUnauthorized, ErrorResponse msg_inactive), sample_db)" by blast
  from r1 r2 r3 show ?thesis by simp
qed

text \<open>
  Claim C8. The password is verified before the status is read: an inactive account and a
  wrong password give the credentials reply, and the inactive-account message is sent only
  for a request whose email matches an account and whose password verifies against that
  account's hash.
\<close>

theorem Login_checks_password_before_status:
  "(\<forall>req user. ShouldBindJSON c = Inr req
        \<and> FindOne (\<lambda>u. User.Email u = LoginRequest.Email req) db = Some user
        \<and> User.Status user \<noteq> StatusActive
        \<and> \<not> CheckPassword e (LoginRequest.Password req) (User.Password user) \<longrightarrow>
      Login e c db = ((StatusUnauthorized, ErrorResponse msg_bad_credentials), db))
   \<and> (snd (fst (Login e c db)) = ErrorResponse msg_inactive \<longrightarrow>
        (\<exists>req user. ShouldBindJSON c = Inr req
           \<and> FindOne (\<lambda>u. User.Email u = LoginRequest.Email req) db = Some user
           \<and> CheckPassword e (LoginRequest.Password req) (User.Password user)
           \<and> User.Status user \<noteq> StatusActive))"
proof (intro conjI allI impI)
  fix req user
  assume "ShouldBindJSON c = Inr req
        \<and> FindOne (\<lambda>u. User.Email u = LoginRequest.Email req) db = Some user
        \<and> User.Status user \<noteq> StatusActive
        \<and> \<not> CheckPassword e (LoginRequest.Password req) (User.Password user)"
  then show "Login e c db = ((StatusUnauthorized, ErrorResponse msg_bad_credentials), db)"
    by (simp add: Login_def)
next
  assume inactive: "snd (fst (Login e c db)) = ErrorResponse msg_inactive"
  show "\<exists>req user. ShouldBindJSON c = Inr req
           \<and> FindOne (\<lambda>u. User.Email u = LoginRequest.Email req) db = Some user
           \<and> CheckPassword e (LoginRequest.Password req) (User.Password user)
           \<and> User.Status user \<noteq> StatusActive"
  proof (cases "ShouldBindJSON c")
    case (Inl err)
    with inactive show ?thesis by (simp add: Login_def)
  next
    case (Inr req)
    show ?thesis
    proof (cases "FindOne (\<lambda>u. User.Email u = LoginRequest.Email req) db")
      case None
      with Inr inactive show ?thesis by (simp add: Login_def)
    next
      case (Some user)
      with Inr inactive show ?thesis
        by (simp add: Login_def Let_def split: if_splits option.splits)
    qed
  qed
qed

theorem Login_checks_password_before_status_witness:
  "Login sample_env (sample_ctx [] (sample_login ''sam@x.com'' ''wrong'') None) sample_db
     = ((StatusUnauthorized, ErrorResponse msg_bad_credentials), sample_db)"
proof -
  have "ShouldBindJSON (sample_ctx [] (sample_login ''sam@x.com'' ''wrong'') None)
          = Inr (sample_login ''sam@x.com'' ''wrong'')
        \<and> FindOne (\<lambda>u. User.Email u = LoginRequest.Email (sample_login ''sam@x.com'' ''wrong'')) sample_db
             = Some (sample_user 3 ''sam'' RoleStaff StatusInactive)
        \<and> User.Status (sample_user 3 ''sam'' RoleStaff StatusInactive) \<noteq> StatusActive
        \<and> \<not> CheckPassword sample_env (LoginRequest.Password (sample_login ''sam@x.com'' ''wrong''))
                 (User.Password (sample_user 3 ''sam'' RoleStaff StatusInactive))"
    by (simp add: sample_ctx_def sample_db_def sample_user_def sample_login_def FindOne_def sample_env_def)
  with Login_checks_password_before_status
         [of "sample_ctx [] (sample_login ''sam@x.com'' ''wrong'') None" sample_db sample_env]
  show ?thesis by blast
qed

section \<open>Role policy in the user-management handlers\<close>


lemma UpdateUser_permission_checks_table:
  "User.Role currentUser = role_string a \<Longrightarrow> User.Role user = role_string t \<Longrightarrow>
     (UpdateUser_permission_checks currentUser user req = None)
       = spec_can_update a t (UpdateUserRequest.Role req)"
  by (cases a; cases t) (simp_all add: UpdateUser_permission_checks_def)




text \<open>
  Claim C4. The claim lets an admin actor update every target and change its role, the one
  exception being the re-assignment of another admin away from admin. The guard of
  \<open>UpdateUser\<close> for an admin actor reads the target's role and the patch only; like every
  permission check of these handlers it compares no ids, so it also fires when the target
  is the actor's own account. Here the admin with id 1 sends a patch with role staff for
  id 1: the reply is 403 and nothing is written.
\<close>

theorem UpdateUser_admin_own_role_forbidden:
  "UpdateUser sample_env
     (sample_ctx ''64b7f0a1c2d3e4f5a6b7c801'' (sample_patch [] RoleStaff)
        (Some ''64b7f0a1c2d3e4f5a6b7c801'')) sample_team
     = ((StatusForbidden, ErrorResponse ''Admin cannot change other admins' roles''), sample_team)"
  by (simp add: UpdateUser_def UpdateUser_permission_checks_def FindOne_def
        sample_ctx_def sample_patch_def sample_env_def sample_team_def sample_user_def)

text \<open>
  Claim C4, as amended. For an actor and a target whose roles are among the three,
  \<open>UpdateUser\<close> replies 403 exactly when the table denies: always for a staff actor; for a
  manager actor unless the target is staff and the patch has no role field; for an admin
  actor only when the target is an admin and the patch names a role other than admin,
  whether that target is another admin or the actor (the two ids below may be equal). A
  denied update leaves the collection as it was.
\<close>

theorem UpdateUser_follows_can_update_table:
  assumes tid: "ObjectIDFromHex e (Param_id c) = Some userObjectID"
    and bind: "ShouldBindJSON c = Inr req"
    and uid: "Get_userID c = Some currentUserID"
    and hex: "ObjectIDFromHex e currentUserID = Some currentUserObjectID"
    and cur: "FindOne (\<lambda>u. User.ID u = currentUserObjectID) db = Some currentUser"
    and tgt: "FindOne (\<lambda>u. User.ID u = userObjectID) db = Some user"
    and actor: "User.Role currentUser = role_string a"
    and target: "User.Role user = role_string t"
  shows "(fst (fst (UpdateUser e c db)) = StatusForbidden
            \<longleftrightarrow> \<not> spec_can_update a t (UpdateUserRequest.Role req))
       \<and> (\<not> spec_can_update a t (UpdateUserRequest.Role req) \<longrightarrow> snd (UpdateUser e c db) = db)
       \<and> (a = Staff \<longrightarrow> fst (fst (UpdateUser e c db)) = StatusForbidden)
       \<and> (a = Manager \<longrightarrow>
            (fst (fst (UpdateUser e c db)) \<noteq> StatusForbidden
               \<longleftrightarrow> t = Staff \<and> UpdateUserRequest.Role req = []))
       \<and> (a = Admin \<longrightarrow>
            (fst (fst (UpdateUser e c db)) = StatusForbidden
               \<longleftrightarrow> t = Admin \<and> UpdateUserRequest.Role req \<noteq> []
                    \<and> UpdateUserRequest.Role req \<noteq> RoleAdmin))"
proof -
  note perm = UpdateUser_permission_checks_table [OF actor target, of req]
  have denied: "fst (fst (UpdateUser e c db)) = StatusForbidden \<and> snd (UpdateUser e c db) = db"
    if "\<not> spec_can_update a t (UpdateUserRequest.Role req)"
  proof -
    from that perm obtain m where "UpdateUser_permission_checks currentUser user req = Some m"
      by auto
    with tid bind uid hex cur tgt show ?thesis by (simp add: UpdateUser_def)
  qed
  have allowed: "fst (fst (UpdateUser e c db)) \<noteq> StatusForbidden"
    if "spec_can_update a t (UpdateUserRequest.Role req)"
  proof -
    from that perm have "UpdateUser_permission_checks currentUser user req = None"
      by simp
    with tid bind uid hex cur tgt show ?thesis
      by (simp add: UpdateUser_def Let_def UpdateOne_def)
  qed
  have iff: "fst (fst (UpdateUser e c db)) = StatusForbidden
               \<longleftrightarrow> \<not> spec_can_update a t (UpdateUserRequest.Role req)"
    using denied allowed by blast
  have staff: "a = Staff \<Longrightarrow> fst (fst (UpdateUser e c db)) = StatusForbidden"
    using iff by simp
  have manager: "a = Manager \<Longrightarrow> (fst (fst (UpdateUser e c db)) \<noteq> StatusForbidden
               \<longleftrightarrow> t = Staff \<and> UpdateUserRequest.Role req = [])"
    using iff by simp
  have admin: "a = Admin \<Longrightarrow> (fst (fst (UpdateUser e c db)) = StatusForbidden
               \<longleftrightarrow> t = Admin \<and> UpdateUserRequest.Role req \<noteq> []
                    \<and> UpdateUserRequest.Role req \<noteq> RoleAdmin)"
    using iff by simp
  from iff denied staff manager admin show ?thesis by blast
qed

theorem UpdateUser_follows_can_update_table_witness:
  "fst (fst (UpdateUser sample_env
       (sample_ctx ''64b7f0a1c2d3e4f5a6b7c803'' (sample_patch ''Samuel'' RoleStaff)
          (Some ''64b7f0a1c2d3e4f5a6b7c802''))
       sample_team)) = StatusForbidden
   \<and> fst (fst (UpdateUser sample_env
       (sample_ctx ''64b7f0a1c2d3e4f5a6b7c803'' (sample_patch ''Samuel'' [])
          (Some ''64b7f0a1c2d3e4f5a6b7c802''))
       sample_team)) \<noteq> StatusForbidden"
proof -
  have actor: "FindOne (\<lambda>u. User.ID u = 2) sample_team
                 = Some (sample_user 2 ''mary'' RoleManager StatusActive)"
    by (simp add: FindOne_def sample_team_def sample_user_def)
  have target: "FindOne (\<lambda>u. User.ID u = 3) sample_team
                 = Some (sample_user 3 ''sam'' RoleStaff StatusActive)"
    by (simp add: FindOne_def sample_team_def sample_user_def)
  have hex2: "ObjectIDFromHex sample_env ''64b7f0a1c2d3e4f5a6b7c802'' = Some 2"
    by (simp add: sample_env_def)
  have hex3: "ObjectIDFromHex sample_env ''64b7f0a1c2d3e4f5a6b7c803'' = Some 3"
    by (simp add: sample_env_def)
  have role2: "User.Role (sample_user 2 ''mary'' RoleManager StatusActive) = role_string Manager"
    by (simp add: sample_user_def)
  have role3: "User.Role (sample_user 3 ''sam'' RoleStaff StatusActive) = role_string Staff"
    by (simp add: sample_user_def)
  have noop: "fst (fst (UpdateUser sample_env
       (sample_ctx ''64b7f0a1c2d3e4f5a6b7c803'' (sample_patch ''Samuel'' RoleStaff)
          (Some ''64b7f0a1c2d3e4f5a6b7c802''))
       sample_team)) = StatusForbidden"
    using UpdateUser_follows_can_update_table
            [where req = "sample_patch ''Samuel'' RoleStaff"
               and currentUserID = "''64b7f0a1c2d3e4f5a6b7c802''"
               and c = "sample_ctx ''64b7f0a1c2d3e4f5a6b7c803'' (sample_patch ''Samuel'' RoleStaff)
                          (Some ''64b7f0a1c2d3e4f5a6b7c802'')",
             OF _ _ _ hex2 actor target role2 role3]
    by (simp add: sample_ctx_def sample_patch_def hex3)
  have plain: "fst (fst (UpdateUser sample_env
       (sample_ctx ''64b7f0a1c2d3e4f5a6b7c803'' (sample_patch ''Samuel'' [])
          (Some ''64b7f0a1c2d3e4f5a6b7c802''))
       sample_team)) \<noteq> StatusForbidden"
    using UpdateUser_follows_can_update_table
            [where req = "sample_patch ''Samuel'' []"
               and currentUserID = "''64b7f0a1c2d3e4f5a6b7c802''"
               and c = "sample_ctx ''64b7f0a1c2d3e4f5a6b7c803'' (sample_patch ''Samuel'' [])
                          (Some ''64b7f0a1c2d3e4f5a6b7c802'')",
             OF _ _ _ hex2 actor target role2 role3]
    by (simp add: sample_ctx_def sample_patch_def hex3)
  from noop plain show ?thesis by blast
qed


text \<open>
  Claim C6. When both the actor and the target are managers, neither guard of
  \<open>DeleteUser\<close> fires: the reply is 204 and the target's document is removed from the
  collection.
\<close>

theorem DeleteUser_manager_deletes_manager:
  assumes tid: "ObjectIDFromHex e (Param_id c) = Some userObjectID"
    and tgt: "FindOne (\<lambda>u. User.ID u = userObjectID) db = Some user"
    and uid: "Get_userID c = Some currentUserID"
    and hex: "ObjectIDFromHex e currentUserID = Some currentUserObjectID"
    and cur: "FindOne (\<lambda>u. User.ID u = currentUserObjectID) db = Some currentUser"
    and actor: "User.Role currentUser = RoleManager"
    and target: "User.Role user = RoleManager"
  shows "DeleteUser_permission_checks currentUser user = None
       \<and> DeleteUser e c db = ((StatusNoContent, Nil), remove1 user db)
       \<and> user \<in> set db"
proof -
  have perm: "DeleteUser_permission_checks currentUser user = None"
    using actor target by (simp add: DeleteUser_permission_checks_def)
  from tgt have rm: "delete_first userObjectID db = remove1 user db"
    unfolding FindOne_def by (rule delete_first_remove1)
  from tgt have mem: "user \<in> set db"
    by (simp add: FindOne_Some_holds)
  from tid tgt uid hex cur perm rm
  have "DeleteUser e c db = ((StatusNoContent, Nil), remove1 user db)"
    by (simp add: DeleteUser_def DeleteOne_def)
  with perm mem show ?thesis by simp
qed

theorem DeleteUser_manager_deletes_manager_witness:
  "DeleteUser sample_env
     (sample_ctx ''64b7f0a1c2d3e4f5a6b7c805'' () (Some ''64b7f0a1c2d3e4f5a6b7c802'')) sample_team
     = ((StatusNoContent, Nil),
        [sample_user 1 ''root'' RoleAdmin StatusActive,
         sample_user 2 ''mary'' RoleManager StatusActive,
         sample_user 3 ''sam'' RoleStaff StatusActive,
         sample_user 4 ''tom'' RoleStaff StatusActive])"
proof -
  have actor: "FindOne (\<lambda>u. User.ID u = 2) sample_team
                 = Some (sample_user 2 ''mary'' RoleManager StatusActive)"
    by (simp add: FindOne_def sample_team_def sample_user_def)
  have target: "FindOne (\<lambda>u. User.ID u = 5) sample_team
                 = Some (sample_user 5 ''mike'' RoleManager StatusActive)"
    by (simp add: FindOne_def sample_team_def sample_user_def)
  have hex2: "ObjectIDFromHex sample_env ''64b7f0a1c2d3e4f5a6b7c802'' = Some 2"
    by (simp add: sample_env_def)
  have hex5: "ObjectIDFromHex sample_env
                (Param_id (sample_ctx ''64b7f0a1c2d3e4f5a6b7c805'' ()
                   (Some ''64b7f0a1c2d3e4f5a6b7c802''))) = Some 5"
    by (simp add: sample_env_def sample_ctx_def)
  have uid: "Get_userID (sample_ctx ''64b7f0a1c2d3e4f5a6b7c805'' ()
                   (Some ''64b7f0a1c2d3e4f5a6b7c802'')) = Some ''64b7f0a1c2d3e4f5a6b7c802''"
    by (simp add: sample_ctx_def)
  have role2: "User.Role (sample_user 2 ''mary'' RoleManager StatusActive) = RoleManager"
    by (simp add: sample_user_def)
  have role5: "User.Role (sample_user 5 ''mike'' RoleManager StatusActive) = RoleManager"
    by (simp add: sample_user_def)
  from DeleteUser_manager_deletes_manager [OF hex5 target uid hex2 actor role2 role5]
  show ?thesis
    by (simp add: sample_team_def sample_user_def)
qed




section \<open>What an update writes\<close>

lemma update_other_fields_changed:
  "User.Name (update_other_fields req u)
     = (if UpdateUserRequest.Name req \<noteq> [] then UpdateUserRequest.Name req else User.Name u)"
  "User.Phone (update_other_fields req u)
     = (if UpdateUserRequest.Phone req \<noteq> [] then UpdateUserRequest.Phone req else User.Phone u)"
  "User.Department (update_other_fields req u)
     = (if UpdateUserRequest.Department req \<noteq> [] then UpdateUserRequest.Department req
        else User.Department u)"
  "User.Bio (update_other_fields req u)
     = (if UpdateUserRequest.Bio req \<noteq> [] then UpdateUserRequest.Bio req else User.Bio u)"
  "User.ProfileImage (update_other_fields req u)
     = (if UpdateUserRequest.ProfileImage req \<noteq> [] then UpdateUserRequest.ProfileImage req
        else User.ProfileImage u)"
  "User.SocialLinks (update_other_fields req u)
     = (if UpdateUserRequest.SocialLinks req \<noteq> None then UpdateUserRequest.SocialLinks req
        else User.SocialLinks u)"
  "User.Role (update_other_fields req u)
     = (if UpdateUserRequest.Role req \<noteq> [] then UpdateUserRequest.Role req else User.Role u)"
  "User.Status (update_other_fields req u)
     = (if UpdateUserRequest.Status req \<noteq> [] then UpdateUserRequest.Status req
        else User.Status u)"
  by (simp_all add: update_other_fields_def Let_def)

lemma update_other_fields_kept:
  "User.ID (update_other_fields req u) = User.ID u"
  "User.Email (update_other_fields req u) = User.Email u"
  "User.Username (update_other_fields req u) = User.Username u"
  "User.Password (update_other_fields req u) = User.Password u"
  "User.LastLogin (update_other_fields req u) = User.LastLogin u"
  "User.CreatedAt (update_other_fields req u) = User.CreatedAt u"
  "User.UpdatedAt (update_other_fields req u) = User.UpdatedAt u"
  by (simp_all add: update_other_fields_def Let_def)

lemma update_set_same:
  "User.ID u = User.ID d \<Longrightarrow> User.Password u = User.Password d \<Longrightarrow>
   User.LastLogin u = User.LastLogin d \<Longrightarrow> User.CreatedAt u = User.CreatedAt d \<Longrightarrow>
   update_set u d = u"
  by (simp add: update_set_def)

lemma UpdateUser_OK_lookups:
  assumes "UpdateUser e c db = ((StatusOK, b), db')"
  shows "\<exists>tid req uid aid currentUser old.
           ObjectIDFromHex e (Param_id c) = Some tid \<and> ShouldBindJSON c = Inr req
         \<and> Get_userID c = Some uid \<and> ObjectIDFromHex e uid = Some aid
         \<and> FindOne (\<lambda>u. User.ID u = aid) db = Some currentUser
         \<and> FindOne (\<lambda>u. User.ID u = tid) db = Some old
         \<and> UpdateUser_permission_checks currentUser old req = None"
  using assms
  by (auto simp: UpdateUser_def split: option.splits sum.splits)


lemma UpdateUser_OK_local_user:
  assumes ok: "UpdateUser e c db = ((StatusOK, b), db')"
    and tid: "ObjectIDFromHex e (Param_id c) = Some tid"
    and bind: "ShouldBindJSON c = Inr req"
    and tgt: "FindOne (\<lambda>u. User.ID u = tid) db = Some old"
    and u1: "u1 = (if UpdateUserRequest.Email req \<noteq> []
                    \<and> UpdateUserRequest.Email req \<noteq> User.Email old
                 then old\<lparr> User.Email := UpdateUserRequest.Email req \<rparr> else old)"
    and u2: "u2 = (if UpdateUserRequest.Username req \<noteq> []
                    \<and> UpdateUserRequest.Username req \<noteq> User.Username u1
                 then u1\<lparr> User.Username := UpdateUserRequest.Username req \<rparr> else u1)"
    and new: "new = (update_other_fields req u2)\<lparr> User.UpdatedAt := Now e \<rparr>"
  shows "db' = update_first tid (update_set new) db \<and> b = UserJSON (ToResponse e new)"
proof -
  from UpdateUser_OK_lookups [OF ok] tid bind tgt
  obtain uid aid currentUser where
    look: "Get_userID c = Some uid" "ObjectIDFromHex e uid = Some aid"
      "FindOne (\<lambda>u. User.ID u = aid) db = Some currentUser"
      "UpdateUser_permission_checks currentUser old req = None"
    by auto
  let ?email = "UpdateUserRequest.Email req \<noteq> []
                    \<and> UpdateUserRequest.Email req \<noteq> User.Email old"
  let ?username = "UpdateUserRequest.Username req \<noteq> []
                    \<and> UpdateUserRequest.Username req \<noteq> User.Username u1"
  have run: "UpdateUser e c db =
      (if ?email \<and> FindOne (\<lambda>u. User.Email u = UpdateUserRequest.Email req
                              \<and> User.ID u \<noteq> tid) db \<noteq> None
       then ((StatusConflict, ErrorResponse ''Email already in use''), db)
       else if ?username \<and> FindOne (\<lambda>u. User.Username u = UpdateUserRequest.Username req
                                   \<and> User.ID u \<noteq> tid) db \<noteq> None
       then ((StatusConflict, ErrorResponse ''Username already in use''), db)
       else ((StatusOK, UserJSON (ToResponse e new)), update_first tid (update_set new) db))"
    using tid bind tgt look
    by (simp add: UpdateUser_def Let_def UpdateOne_def u1 u2 new)
  from ok show ?thesis
    unfolding run by (simp split: if_splits)
qed

text \<open>
  Claim C10. After every update that replies 200, the collection differs from the one before
  in the target's document only. In that document each of the ten patchable fields has the
  value of the patch when the patch carries one (a non-empty string, a non-nil map) and its
  prior value otherwise, \<open>UpdatedAt\<close> is the time of the request, and the password hash,
  \<open>CreatedAt\<close>, \<open>LastLogin\<close> and the id are the prior ones. The reply carries the same
  document.
\<close>

theorem UpdateUser_partial_update:
  assumes ok: "UpdateUser e c db = ((StatusOK, b), db')"
  shows "\<exists>tid req old new i.
           ObjectIDFromHex e (Param_id c) = Some tid \<and> ShouldBindJSON c = Inr req
         \<and> FindOne (\<lambda>u. User.ID u = tid) db = Some old
         \<and> i < length db \<and> db ! i = old \<and> db' = db[i := new]
         \<and> b = UserJSON (ToResponse e new)
         \<and> User.Name new = (if UpdateUserRequest.Name req \<noteq> []
                             then UpdateUserRequest.Name req else User.Name old)
         \<and> User.Email new = (if UpdateUserRequest.Email req \<noteq> []
                              then UpdateUserRequest.Email req else User.Email old)
         \<and> User.Username new = (if UpdateUserRequest.Username req \<noteq> []
                                 then UpdateUserRequest.Username req else User.Username old)
         \<and> User.Phone new = (if UpdateUserRequest.Phone req \<noteq> []
                              then UpdateUserRequest.Phone req else User.Phone old)
         \<and> User.Department new = (if UpdateUserRequest.Department req \<noteq> []
                                   then UpdateUserRequest.Department req else User.Department old)
         \<and> User.Bio new = (if UpdateUserRequest.Bio req \<noteq> []
                            then UpdateUserRequest.Bio req else User.Bio old)
         \<and> User.ProfileImage new = (if UpdateUserRequest.ProfileImage req \<noteq> []
                                     then UpdateUserRequest.ProfileImage req
                                     else User.ProfileImage old)
         \<and> User.SocialLinks new = (if UpdateUserRequest.SocialLinks req \<noteq> None
                                    then UpdateUserRequest.SocialLinks req
                                    else User.SocialLinks old)
         \<and> User.Role new = (if UpdateUserRequest.Role req \<noteq> []
                             then UpdateUserRequest.Role req else User.Role old)
         \<and> User.Status new = (if UpdateUserRequest.Status req \<noteq> []
                               then UpdateUserRequest.Status req else User.Status old)
         \<and> User.UpdatedAt new = Now e
         \<and> User.Password new = User.Password old
         \<and> User.CreatedAt new = User.CreatedAt old
         \<and> User.LastLogin new = User.LastLogin old
         \<and> User.ID new = User.ID old"
proof -
  from UpdateUser_OK_lookups [OF ok] obtain tid req old where
    tid: "ObjectIDFromHex e (Param_id c) = Some tid"
    and bind: "ShouldBindJSON c = Inr req"
    and tgt: "FindOne (\<lambda>u. User.ID u = tid) db = Some old"
    by blast
  define u1 where "u1 = (if UpdateUserRequest.Email req \<noteq> []
                    \<and> UpdateUserRequest.Email req \<noteq> User.Email old
                 then old\<lparr> User.Email := UpdateUserRequest.Email req \<rparr> else old)"
  define u2 where "u2 = (if UpdateUserRequest.Username req \<noteq> []
                    \<and> UpdateUserRequest.Username req \<noteq> User.Username u1
                 then u1\<lparr> User.Username := UpdateUserRequest.Username req \<rparr> else u1)"
  define new where "new = (update_other_fields req u2)\<lparr> User.UpdatedAt := Now e \<rparr>"
  from UpdateUser_OK_local_user [OF ok tid bind tgt u1_def u2_def new_def]
  have db': "db' = update_first tid (update_set new) db"
    and b: "b = UserJSON (ToResponse e new)"
    by blast+
  have kept: "User.ID new = User.ID old" "User.Password new = User.Password old"
    "User.LastLogin new = User.LastLogin old" "User.CreatedAt new = User.CreatedAt old"
    by (simp_all add: new_def u2_def u1_def update_other_fields_kept)
  have stamp: "User.UpdatedAt new = Now e"
    by (simp add: new_def)
  have email: "User.Email new = (if UpdateUserRequest.Email req \<noteq> []
                              then UpdateUserRequest.Email req else User.Email old)"
    by (simp add: new_def u2_def u1_def update_other_fields_kept)
  have username: "User.Username new = (if UpdateUserRequest.Username req \<noteq> []
                                 then UpdateUserRequest.Username req else User.Username old)"
    by (simp add: new_def u2_def u1_def update_other_fields_kept)
  have others:
    "User.Name new = (if UpdateUserRequest.Name req \<noteq> []
                             then UpdateUserRequest.Name req else User.Name old)"
    "User.Phone new = (if UpdateUserRequest.Phone req \<noteq> []
                              then UpdateUserRequest.Phone req else User.Phone old)"
    "User.Department new = (if UpdateUserRequest.Department req \<noteq> []
                                   then UpdateUserRequest.Department req else User.Department old)"
    "User.Bio new = (if UpdateUserRequest.Bio req \<noteq> []
                            then UpdateUserRequest.Bio req else User.Bio old)"
    "User.ProfileImage new = (if UpdateUserRequest.ProfileImage req \<noteq> []
                                     then UpdateUserRequest.ProfileImage req
                                     else User.ProfileImage old)"
    "User.SocialLinks new = (if UpdateUserRequest.SocialLinks req \<noteq> None
                                    then UpdateUserRequest.SocialLinks req
                                    else User.SocialLinks old)"
    "User.Role new = (if UpdateUserRequest.Role req \<noteq> []
                             then UpdateUserRequest.Role req else User.Role old)"
    "User.Status new = (if UpdateUserRequest.Status req \<noteq> []
                               then UpdateUserRequest.Status req else User.Status old)"
    by (simp_all add: new_def u2_def u1_def update_other_fields_changed)
  from tgt have "find (\<lambda>u. User.ID u = tid) db = Some old"
    by (simp add: FindOne_def)
  from update_first_nth [OF this, of "update_set new"] obtain i where
    i: "i < length db" "db ! i = old"
    and upd: "update_first tid (update_set new) db = db[i := update_set new old]"
    by blast
  from kept have "update_set new old = new"
    by (simp add: update_set_same)
  with upd db' have frame: "db' = db[i := new]" by simp
  from tid bind tgt i frame b others email username stamp kept
  show ?thesis by blast
qed

theorem UpdateUser_partial_update_witness:
  "\<exists>new. snd (UpdateUser sample_env
              (sample_ctx ''64b7f0a1c2d3e4f5a6b7c803'' (sample_patch ''Samuel'' [])
                 (Some ''64b7f0a1c2d3e4f5a6b7c801'')) sample_team)
          = sample_team[2 := new]
        \<and> User.Name new = ''Samuel'' \<and> User.Email new = ''sam@x.com''
        \<and> User.Role new = RoleStaff \<and> User.UpdatedAt new = 1000
        \<and> User.Password new = ''$2a$secret1'' \<and> User.CreatedAt new = 10
        \<and> User.LastLogin new = None"
proof -
  let ?c = "sample_ctx ''64b7f0a1c2d3e4f5a6b7c803'' (sample_patch ''Samuel'' [])
                 (Some ''64b7f0a1c2d3e4f5a6b7c801'')"
  have "fst (fst (UpdateUser sample_env ?c sample_team)) = StatusOK"
    by (simp add: UpdateUser_def UpdateUser_permission_checks_def UpdateOne_def FindOne_def
          Let_def sample_ctx_def sample_patch_def sample_env_def sample_team_def sample_user_def)
  then obtain b db' where ok: "UpdateUser sample_env ?c sample_team = ((StatusOK, b), db')"
    by (metis prod.collapse)
  from UpdateUser_partial_update [OF ok] obtain tid req old new i where
    f: "ObjectIDFromHex sample_env (Param_id ?c) = Some tid" "ShouldBindJSON ?c = Inr req"
      "FindOne (\<lambda>u. User.ID u = tid) sample_team = Some old"
      "i < length sample_team" "sample_team ! i = old" "db' = sample_team[i := new]"
      "User.Name new = (if UpdateUserRequest.Name req \<noteq> []
                             then UpdateUserRequest.Name req else User.Name old)"
      "User.Email new = (if UpdateUserRequest.Email req \<noteq> []
                              then UpdateUserRequest.Email req else User.Email old)"
      "User.Role new = (if UpdateUserRequest.Role req \<noteq> []
                             then UpdateUserRequest.Role req else User.Role old)"
      "User.UpdatedAt new = Now sample_env"
      "User.Password new = User.Password old"
      "User.CreatedAt new = User.CreatedAt old"
      "User.LastLogin new = User.LastLogin old"
      "User.ID new = User.ID old"
    by blast
  from f(1) have tid: "tid = 3" by (simp add: sample_ctx_def sample_env_def)
  from f(2) have req: "req = sample_patch ''Samuel'' []" by (simp add: sample_ctx_def)
  from f(3) tid have old: "old = sample_user 3 ''sam'' RoleStaff StatusActive"
    by (simp add: FindOne_def sample_team_def sample_user_def)
  have "i = 2"
  proof -
    from f(4) have "i \<in> {0, 1, 2, 3, 4}" by (auto simp: sample_team_def)
    with f(5) old show ?thesis
      by (auto simp: sample_team_def sample_user_def)
  qed
  with f ok req old
  have "snd (UpdateUser sample_env ?c sample_team) = sample_team[2 := new]
        \<and> User.Name new = ''Samuel'' \<and> User.Email new = ''sam@x.com''
        \<and> User.Role new = RoleStaff \<and> User.UpdatedAt new = 1000
        \<and> User.Password new = ''$2a$secret1'' \<and> User.CreatedAt new = 10
        \<and> User.LastLogin new = None"
    by (simp add: sample_patch_def sample_user_def sample_env_def)
  then show ?thesis by blast
qed

section \<open>Roles that account mutation can produce\<close>

lemma CreateUser_Created_D:
  assumes "CreateUser e c db = ((StatusCreated, b), db')"
  shows "\<exists>req uid aid currentUser user.
           ShouldBindJSON c = Inr req \<and> Get_userID c = Some uid
         \<and> ObjectIDFromHex e uid = Some aid
         \<and> FindOne (\<lambda>u. User.ID u = aid) db = Some currentUser
         \<and> CreateUser_permission_checks currentUser req = None
         \<and> db' = db @ [user] \<and> User.Role user = RegisterRequest.Role req"
  using assms
  by (auto simp: CreateUser_def Let_def InsertOne_def split: option.splits sum.splits if_splits)

lemma CreateUser_permission_rank:
  "CreateUser_permission_checks currentUser req = None \<Longrightarrow>
     spec_rank (RegisterRequest.Role req) < spec_rank (User.Role currentUser)"
  by (auto simp: CreateUser_permission_checks_def spec_rank_def split: if_splits)

lemma UpdateUser_permission_None_D:
  "UpdateUser_permission_checks currentUser user req = None \<Longrightarrow>
     (User.Role currentUser = RoleAdmin
        \<and> \<not> (UpdateUserRequest.Role req \<noteq> [] \<and> User.Role user = RoleAdmin
               \<and> UpdateUserRequest.Role req \<noteq> RoleAdmin))
   \<or> (User.Role currentUser = RoleManager \<and> User.Role user = RoleStaff
        \<and> UpdateUserRequest.Role req = [])"
  by (simp add: UpdateUser_permission_checks_def split: if_splits)

lemma UpdateUser_OK_role:
  assumes ok: "UpdateUser e c db = ((StatusOK, b), db')"
  shows "\<exists>tid req uid aid currentUser old new i.
           ObjectIDFromHex e (Param_id c) = Some tid \<and> ShouldBindJSON c = Inr req
         \<and> Get_userID c = Some uid \<and> ObjectIDFromHex e uid = Some aid
         \<and> FindOne (\<lambda>u. User.ID u = aid) db = Some currentUser
         \<and> FindOne (\<lambda>u. User.ID u = tid) db = Some old
         \<and> UpdateUser_permission_checks currentUser old req = None
         \<and> i < length db \<and> db ! i = old \<and> db' = db[i := new]
         \<and> User.Role new = (if UpdateUserRequest.Role req \<noteq> []
                             then UpdateUserRequest.Role req else User.Role old)"
proof -
  from UpdateUser_OK_lookups [OF ok] obtain tid req uid aid currentUser old where
    tid: "ObjectIDFromHex e (Param_id c) = Some tid"
    and bind: "ShouldBindJSON c = Inr req"
    and actor: "Get_userID c = Some uid" "ObjectIDFromHex e uid = Some aid"
      "FindOne (\<lambda>u. User.ID u = aid) db = Some currentUser"
    and tgt: "FindOne (\<lambda>u. User.ID u = tid) db = Some old"
    and perm: "UpdateUser_permission_checks currentUser old req = None"
    by blast
  define u1 where "u1 = (if UpdateUserRequest.Email req \<noteq> []
                    \<and> UpdateUserRequest.Email req \<noteq> User.Email old
                 then old\<lparr> User.Email := UpdateUserRequest.Email req \<rparr> else old)"
  define u2 where "u2 = (if UpdateUserRequest.Username req \<noteq> []
                    \<and> UpdateUserRequest.Username req \<noteq> User.Username u1
                 then u1\<lparr> User.Username := UpdateUserRequest.Username req \<rparr> else u1)"
  define new where "new = (update_other_fields req u2)\<lparr> User.UpdatedAt := Now e \<rparr>"
  from UpdateUser_OK_local_user [OF ok tid bind tgt u1_def u2_def new_def]
  have db': "db' = update_first tid (update_set new) db"
    by blast
  have kept: "User.ID new = User.ID old" "User.Password new = User.Password old"
    "User.LastLogin new = User.LastLogin old" "User.CreatedAt new = User.CreatedAt old"
    by (simp_all add: new_def u2_def u1_def update_other_fields_kept)
  have role: "User.Role new = (if UpdateUserRequest.Role req \<noteq> []
                             then UpdateUserRequest.Role req else User.Role old)"
    by (simp add: new_def u2_def u1_def update_other_fields_changed)
  from tgt have "find (\<lambda>u. User.ID u = tid) db = Some old"
    by (simp add: FindOne_def)
  from update_first_nth [OF this, of "update_set new"] obtain i where
    i: "i < length db" "db ! i = old"
    and upd: "update_first tid (update_set new) db = db[i := update_set new old]"
    by blast
  from kept have "update_set new old = new"
    by (simp add: update_set_same)
  with upd db' have frame: "db' = db[i := new]" by simp
  from tid bind actor tgt perm i frame role show ?thesis by blast
qed

text \<open>
  Claim C2. The claim has no successful \<open>CreateUser\<close> or \<open>UpdateUser\<close> leave the target
  with a role equal to or above the actor's. It fails for an admin actor of \<open>UpdateUser\<close>:
  the only guard on an admin actor forbids moving an admin target away from admin, so an
  admin may set the role of a staff account to admin. In the collection below the admin
  with id 1 does so to the staff account with id 3; the reply is 200 and the stored target
  then has the actor's own role.
\<close>

theorem UpdateUser_admin_promotes_staff_to_admin:
  "UpdateUser sample_env
     (sample_ctx ''64b7f0a1c2d3e4f5a6b7c803'' (sample_patch [] RoleAdmin)
        (Some ''64b7f0a1c2d3e4f5a6b7c801'')) sample_team
     = ((StatusOK,
         UserJSON (ToResponse sample_env
           ((sample_user 3 ''sam'' RoleAdmin StatusActive)\<lparr> User.UpdatedAt := 1000 \<rparr>))),
        sample_team[2 := (sample_user 3 ''sam'' RoleAdmin StatusActive)\<lparr> User.UpdatedAt := 1000 \<rparr>])
   \<and> \<not> spec_rank (User.Role
            ((sample_user 3 ''sam'' RoleAdmin StatusActive)\<lparr> User.UpdatedAt := 1000 \<rparr>))
         < spec_rank (User.Role (sample_user 1 ''root'' RoleAdmin StatusActive))"
  by (simp add: UpdateUser_def UpdateUser_permission_checks_def UpdateOne_def FindOne_def
        update_other_fields_def update_set_def Let_def spec_rank_def
        sample_ctx_def sample_patch_def sample_env_def sample_team_def sample_user_def)

text \<open>
  Claim C2, as amended. A successful \<open>CreateUser\<close> appends an account whose role ranks
  strictly below the actor's. A successful \<open>UpdateUser\<close> has a manager or an admin as
  actor and leaves the target with the role of the patch if it has one and its prior role
  otherwise; for a manager actor the target was staff and stays staff, strictly below the
  actor; for an admin actor an admin target stays admin, and any other target may receive
  any role, admin included.
\<close>

theorem account_mutation_role_bound:
  "(CreateUser e c1 db = ((StatusCreated, b1), db1) \<longrightarrow>
      (\<exists>uid aid currentUser user.
          Get_userID c1 = Some uid \<and> ObjectIDFromHex e uid = Some aid
        \<and> FindOne (\<lambda>u. User.ID u = aid) db = Some currentUser
        \<and> db1 = db @ [user]
        \<and> spec_rank (User.Role user) < spec_rank (User.Role currentUser)))
   \<and> (UpdateUser e c2 db = ((StatusOK, b2), db2) \<longrightarrow>
      (\<exists>uid aid currentUser tid req old new i.
          Get_userID c2 = Some uid \<and> ObjectIDFromHex e uid = Some aid
        \<and> FindOne (\<lambda>u. User.ID u = aid) db = Some currentUser
        \<and> ObjectIDFromHex e (Param_id c2) = Some tid \<and> ShouldBindJSON c2 = Inr req
        \<and> FindOne (\<lambda>u. User.ID u = tid) db = Some old
        \<and> i < length db \<and> db ! i = old \<and> db2 = db[i := new]
        \<and> User.Role new = (if UpdateUserRequest.Role req \<noteq> []
                            then UpdateUserRequest.Role req else User.Role old)
        \<and> (User.Role currentUser = RoleManager \<or> User.Role currentUser = RoleAdmin)
        \<and> (User.Role currentUser = RoleManager \<longrightarrow>
              User.Role old = RoleStaff \<and> User.Role new = RoleStaff
              \<and> spec_rank (User.Role new) < spec_rank (User.Role currentUser))
        \<and> (User.Role currentUser = RoleAdmin \<and> User.Role old = RoleAdmin \<longrightarrow>
              User.Role new = RoleAdmin)))"
proof (intro conjI impI)
  assume "CreateUser e c1 db = ((StatusCreated, b1), db1)"
  from CreateUser_Created_D [OF this] obtain req uid aid currentUser user where
    f: "Get_userID c1 = Some uid" "ObjectIDFromHex e uid = Some aid"
      "FindOne (\<lambda>u. User.ID u = aid) db = Some currentUser"
      "CreateUser_permission_checks currentUser req = None"
      "db1 = db @ [user]" "User.Role user = RegisterRequest.Role req"
    by blast
  from CreateUser_permission_rank [OF f(4)] f(6)
  have "spec_rank (User.Role user) < spec_rank (User.Role currentUser)" by simp
  with f show "\<exists>uid aid currentUser user.
          Get_userID c1 = Some uid \<and> ObjectIDFromHex e uid = Some aid
        \<and> FindOne (\<lambda>u. User.ID u = aid) db = Some currentUser
        \<and> db1 = db @ [user]
        \<and> spec_rank (User.Role user) < spec_rank (User.Role currentUser)"
    by blast
next
  assume "UpdateUser e c2 db = ((StatusOK, b2), db2)"
  from UpdateUser_OK_role [OF this] obtain tid req uid aid currentUser old new i where
    f: "ObjectIDFromHex e (Param_id c2) = Some tid" "ShouldBindJSON c2 = Inr req"
      "Get_userID c2 = Some uid" "ObjectIDFromHex e uid = Some aid"
      "FindOne (\<lambda>u. User.ID u = aid) db = Some currentUser"
      "FindOne (\<lambda>u. User.ID u = tid) db = Some old"
      "i < length db" "db ! i = old" "db2 = db[i := new]"
    and perm: "UpdateUser_permission_checks currentUser old req = None"
    and role: "User.Role new = (if UpdateUserRequest.Role req \<noteq> []
                             then UpdateUserRequest.Role req else User.Role old)"
    by blast
  note p = UpdateUser_permission_None_D [OF perm]
  from p have who: "User.Role currentUser = RoleManager \<or> User.Role currentUser = RoleAdmin"
    by blast
  from p role have mgr: "User.Role currentUser = RoleManager \<longrightarrow>
              User.Role old = RoleStaff \<and> User.Role new = RoleStaff
              \<and> spec_rank (User.Role new) < spec_rank (User.Role currentUser)"
    by (auto simp: spec_rank_def)
  from p role have adm: "User.Role currentUser = RoleAdmin \<and> User.Role old = RoleAdmin \<longrightarrow>
              User.Role new = RoleAdmin"
    by auto
  from f role who mgr adm
  show "\<exists>uid aid currentUser tid req old new i.
          Get_userID c2 = Some uid \<and> ObjectIDFromHex e uid = Some aid
        \<and> FindOne (\<lambda>u. User.ID u = aid) db = Some currentUser
        \<and> ObjectIDFromHex e (Param_id c2) = Some tid \<and> ShouldBindJSON c2 = Inr req
        \<and> FindOne (\<lambda>u. User.ID u = tid) db = Some old
        \<and> i < length db \<and> db ! i = old \<and> db2 = db[i := new]
        \<and> User.Role new = (if UpdateUserRequest.Role req \<noteq> []
                            then UpdateUserRequest.Role req else User.Role old)
        \<and> (User.Role currentUser = RoleManager \<or> User.Role currentUser = RoleAdmin)
        \<and> (User.Role currentUser = RoleManager \<longrightarrow>
              User.Role old = RoleStaff \<and> User.Role new = RoleStaff
              \<and> spec_rank (User.Role new) < spec_rank (User.Role currentUser))
        \<and> (User.Role currentUser = RoleAdmin \<and> User.Role old = RoleAdmin \<longrightarrow>
              User.Role new = RoleAdmin)"
    by blast
qed


theorem account_mutation_role_bound_witness:
  "(\<exists>(currentUser :: User) user.
       snd (CreateUser sample_env
              (sample_ctx [] (sample_register ''eve'' RoleStaff) (Some ''64b7f0a1c2d3e4f5a6b7c802''))
              sample_team) = sample_team @ [user]
     \<and> spec_rank (User.Role user) < spec_rank (User.Role currentUser))
   \<and> (\<exists>new i. i < length sample_team
     \<and> snd (UpdateUser sample_env
              (sample_ctx ''64b7f0a1c2d3e4f5a6b7c803'' (sample_patch ''Samuel'' [])
                 (Some ''64b7f0a1c2d3e4f5a6b7c802'')) sample_team) = sample_team[i := new]
     \<and> User.Role new = RoleStaff)"
proof -
  let ?c1 = "sample_ctx [] (sample_register ''eve'' RoleStaff) (Some ''64b7f0a1c2d3e4f5a6b7c802'')"
  let ?c2 = "sample_ctx ''64b7f0a1c2d3e4f5a6b7c803'' (sample_patch ''Samuel'' [])
                 (Some ''64b7f0a1c2d3e4f5a6b7c802'')"
  have "fst (fst (CreateUser sample_env ?c1 sample_team)) = StatusCreated"
    by (simp add: CreateUser_def CreateUser_permission_checks_def InsertOne_def FindOne_def
          Let_def sample_ctx_def sample_register_def sample_env_def sample_team_def
          sample_user_def)
  then obtain b1 db1 where ok1: "CreateUser sample_env ?c1 sample_team = ((StatusCreated, b1), db1)"
    by (metis prod.collapse)
  have "fst (fst (UpdateUser sample_env ?c2 sample_team)) = StatusOK"
    by (simp add: UpdateUser_def UpdateUser_permission_checks_def UpdateOne_def FindOne_def
          Let_def sample_ctx_def sample_patch_def sample_env_def sample_team_def sample_user_def)
  then obtain b2 db2 where ok2: "UpdateUser sample_env ?c2 sample_team = ((StatusOK, b2), db2)"
    by (metis prod.collapse)
  note inst = account_mutation_role_bound
                [of sample_env ?c1 sample_team b1 db1 ?c2 b2 db2]
  from inst [THEN conjunct1, THEN mp, OF ok1] obtain actor :: User and user where
    "db1 = sample_team @ [user]" "spec_rank (User.Role user) < spec_rank (User.Role actor)"
    by blast
  with ok1 have "snd (CreateUser sample_env ?c1 sample_team) = sample_team @ [user]
     \<and> spec_rank (User.Role user) < spec_rank (User.Role actor)"
    by simp
  then have created: "\<exists>(currentUser :: User) user.
       snd (CreateUser sample_env ?c1 sample_team) = sample_team @ [user]
     \<and> spec_rank (User.Role user) < spec_rank (User.Role currentUser)"
    by blast
  from inst [THEN conjunct2, THEN mp, OF ok2] obtain uid aid currentUser and tid :: ObjectID and req :: UpdateUserRequest
    and old :: User and new i where
    f: "Get_userID ?c2 = Some uid" "ObjectIDFromHex sample_env uid = Some aid"
       "FindOne (\<lambda>u. User.ID u = aid) sample_team = Some currentUser"
       "i < length sample_team" "db2 = sample_team[i := new]"
       "User.Role currentUser = RoleManager \<longrightarrow> User.Role new = RoleStaff"
    by blast
  from f(1) have "uid = ''64b7f0a1c2d3e4f5a6b7c802''" by (simp add: sample_ctx_def)
  with f(2) have "aid = 2" by (simp add: sample_env_def)
  with f(3) have "currentUser = sample_user 2 ''mary'' RoleManager StatusActive"
    by (simp add: FindOne_def sample_team_def sample_user_def)
  with f(6) have "User.Role new = RoleStaff"
    by (simp add: sample_user_def)
  with f(4,5) ok2 have "i < length sample_team
     \<and> snd (UpdateUser sample_env ?c2 sample_team) = sample_team[i := new]
     \<and> User.Role new = RoleStaff"
    by simp
  then have updated: "\<exists>new i. i < length sample_team
     \<and> snd (UpdateUser sample_env ?c2 sample_team) = sample_team[i := new]
     \<and> User.Role new = RoleStaff"
    by blast
  from created updated show ?thesis by blast
qed

end
